theory Spec2Isabelle
  imports Complex_Main
begin

section \<open>Data model\<close>

text \<open>
  The orders service of \<^verbatim>\<open>src/orders/orders.service.ts\<close>: the class \<^verbatim>\<open>OrdersService\<close>
  with its operations \<^verbatim>\<open>create\<close>, \<^verbatim>\<open>findAll\<close>, \<^verbatim>\<open>findOne\<close>, \<^verbatim>\<open>changeStatus\<close>,
  \<^verbatim>\<open>createPaymentSession\<close> and \<^verbatim>\<open>paidOrder\<close>.

  The type of JavaScript's \<^verbatim>\<open>number\<close> is the type parameter \<open>'n\<close> of the model. The
  code computes with it only through the literal \<^verbatim>\<open>0\<close> and the operators \<^verbatim>\<open>+\<close> and
  \<^verbatim>\<open>*\<close>, which are \<open>0\<close>, \<open>+\<close> and \<open>*\<close> of \<open>'n\<close>: no law of arithmetic is assumed of
  them (the classes \<open>zero\<close>, \<open>plus\<close> and \<open>times\<close> have none), so whatever is proved holds
  of the rounded arithmetic of IEEE doubles as it holds of exact arithmetic.
  Timestamps (\<^verbatim>\<open>Date\<close>) are natural numbers.
\<close>

text \<open>
  Modelled from the spec: the enumeration \<^verbatim>\<open>OrderStatus\<close> of the store's schema
  (the source only writes the literal \<^verbatim>\<open>'PAID'\<close>); \<open>PENDING\<close> is the initial status.
\<close>

datatype order_status = PENDING | PAID | DELIVERED | CANCELLED

text \<open>
  The values an operation can throw. \<open>StatusMessage\<close> is an object
  \<^verbatim>\<open>{ status, message }\<close>, \<open>RemoteError\<close> any other value a remote call rejected with
  (a string, say), \<open>TypeError\<close> the runtime error of reading the named property of
  \<^verbatim>\<open>undefined\<close>, \<open>PrismaError\<close> a rejection by the store, and \<open>RpcException\<close> is
  \<^verbatim>\<open>new RpcException(error)\<close>, which holds the value it was given as it is.
\<close>

datatype prisma_error = RecordNotFound | UniqueConstraint | StoreUnavailable

datatype error =
    RemoteError string
  | TypeError string
  | PrismaError prisma_error
  | StatusMessage nat string
  | RpcException error

text \<open>
  What a remote call rejects with (\<^verbatim>\<open>firstValueFrom(this.client.send(...))\<close> types it
  \<^verbatim>\<open>any\<close>): the payload the remote service sent, an object \<^verbatim>\<open>{ status, message }\<close>
  or some other value. \<open>thrown\<close> is that payload as the value the caller catches: it
  carries no mark of where it came from.
\<close>

datatype payload = ObjectPayload nat string | OtherPayload string

fun thrown :: "payload \<Rightarrow> error" where
  "thrown (ObjectPayload st msg) = StatusMessage st msg"
| "thrown (OtherPayload s) = RemoteError s"

text \<open>\<^verbatim>\<open>HttpStatus.NOT_FOUND\<close> of the framework.\<close>

definition NOT_FOUND :: nat where
  "NOT_FOUND = 404"

text \<open>A product record of the validator's reply (\<^verbatim>\<open>products: any[]\<close>): id, price, name.\<close>

record 'n product =
  id' :: string
  price :: 'n
  name :: string

text \<open>
  An item of \<^verbatim>\<open>CreateOrderDto.items\<close> and the columns selected of a stored
  \<^verbatim>\<open>OrderItem\<close> have the same shape: productId, quantity, price. In a request the
  price is what the client supplied.
\<close>

record 'n order_item =
  productId :: string
  quantity :: 'n
  price :: 'n

text \<open>\<^verbatim>\<open>{ ...orderItem, name }\<close>\<close>

record 'n named_item = "'n order_item" +
  name :: string

record 'n create_order_dto =
  items :: "'n order_item list"

record paid_order_dto =
  orderId :: string
  stripePaymentId :: string
  receiptUrl :: string

text \<open>
  Modelled from the spec: the scalar columns of the \<^verbatim>\<open>Order\<close> table (the schema is
  not part of the source). \<open>stripeChargeId\<close> is the payment reference.
\<close>

record 'n order =
  id' :: string
  totalAmount :: 'n
  totalItems :: 'n
  status :: order_status
  paid :: bool
  paidAt :: "nat option"
  stripeChargeId :: "string option"
  createdAt :: nat

text \<open>
  An order together with its items: with \<open>order_item\<close>s it is what the store returns
  under \<^verbatim>\<open>include: { OrderItem: ... }\<close>, with \<open>named_item\<close>s it is the interface
  \<^verbatim>\<open>OrderWithProducts\<close>.
\<close>

record ('n, 'i) order_with = "'n order" +
  OrderItem :: "'i list"

text \<open>\<^verbatim>\<open>{ ...order, OrderItem: xs }\<close>\<close>

definition with_items :: "('n, 'i) order_with \<Rightarrow> 'j list \<Rightarrow> ('n, 'j) order_with" where
  "with_items ord xs = order.extend (order.truncate ord) (order_with.fields xs)"

section \<open>The order store\<close>

text \<open>
  Modelled from the spec: the Order Store (the Prisma client and its schema are not part
  of the source). Three tables: the orders, the items with the identifier of their order,
  and the receipts (order identifier, receipt URL). A receipt is one-to-one with its
  order, so the store rejects a second receipt for the same order. Identifiers are opaque
  and generated by the store: \<open>next_id\<close> counts the identifiers handed out.
\<close>

record 'n store =
  order_table :: "'n order list"
  order_item_table :: "(string \<times> 'n order_item) list"
  order_receipt_table :: "(string \<times> string) list"
  next_id :: nat

definition mk_id :: "nat \<Rightarrow> string" where
  "mk_id n = replicate (Suc n) (CHR ''o'')"

definition items_of :: "'n store \<Rightarrow> string \<Rightarrow> 'n order_item list" where
  "items_of s i = map snd (filter (\<lambda>r. fst r = i) (order_item_table s))"

definition receipts_of :: "'n store \<Rightarrow> string \<Rightarrow> string list" where
  "receipts_of s i = map snd (filter (\<lambda>r. fst r = i) (order_receipt_table s))"

text \<open>
  Modelled from the spec: \<^verbatim>\<open>this.order.create({ data: { totalAmount, totalItems,
  OrderItem: { createMany } }, include })\<close>, one atomic write of the order row and of its
  items. The store may reject the write (a storage failure: \<open>rejection\<close> is its error,
  if any), and then nothing is written. The columns the call does not give take the
  defaults of the schema, which is not part of the source: a fresh identifier, status
  \<open>PENDING\<close>, not paid, no payment time or reference, created now. The persisted row is
  returned with its items.
\<close>

definition order_create ::
  "'n store \<Rightarrow> prisma_error option \<Rightarrow> nat \<Rightarrow> 'n \<Rightarrow> 'n \<Rightarrow> 'n order_item list \<Rightarrow>
     prisma_error + ('n, 'n order_item) order_with \<times> 'n store" where
  "order_create s rejection tm amount n its =
     (case rejection of
        Some err \<Rightarrow> Inl err
      | None \<Rightarrow>
          (let i = mk_id (next_id s);
               row = \<lparr>id' = i, totalAmount = amount, totalItems = n, status = PENDING,
                      paid = False, paidAt = None, stripeChargeId = None, createdAt = tm\<rparr>;
               s' = s\<lparr>order_table := order_table s @ [row],
                      order_item_table := order_item_table s @ map (\<lambda>it. (i, it)) its,
                      next_id := Suc (next_id s)\<rparr>
           in Inr (order.extend row (order_with.fields (items_of s' i)), s')))"

text \<open>
  The queries \<^verbatim>\<open>count\<close>, \<^verbatim>\<open>findMany\<close> (with \<^verbatim>\<open>take\<close> and \<^verbatim>\<open>skip\<close>) and
  \<^verbatim>\<open>findFirst\<close> (with the items included), in the order of the table. Under
  \<^verbatim>\<open>where: { status }\<close> an absent status filters nothing.
\<close>

definition matches :: "order_status option \<Rightarrow> 'n order \<Rightarrow> bool" where
  "matches st ord = (case st of None \<Rightarrow> True | Some s \<Rightarrow> status ord = s)"

definition order_count :: "'n store \<Rightarrow> order_status option \<Rightarrow> nat" where
  "order_count s st = length (filter (matches st) (order_table s))"

definition order_findMany ::
  "'n store \<Rightarrow> nat \<Rightarrow> nat \<Rightarrow> order_status option \<Rightarrow> 'n order list" where
  "order_findMany s tk sk st = take tk (drop sk (filter (matches st) (order_table s)))"

definition order_findFirst :: "'n store \<Rightarrow> string \<Rightarrow> ('n, 'n order_item) order_with option" where
  "order_findFirst s i =
     (case find (\<lambda>ord. id' ord = i) (order_table s) of
        None \<Rightarrow> None
      | Some row \<Rightarrow> Some (order.extend row (order_with.fields (items_of s i))))"

text \<open>
  Modelled from the spec: \<^verbatim>\<open>this.order.update({ where: { id }, data })\<close>, with the
  nested \<^verbatim>\<open>OrderReceipt: { create: { receiptUrl } }\<close> when \<open>receipt\<close> is given, one
  atomic write. It is rejected, and writes nothing, when no order has the identifier, or
  when a receipt is to be created and the order already has one (an order owns at most one
  receipt); otherwise it returns the updated row.
\<close>

definition order_update ::
  "'n store \<Rightarrow> string \<Rightarrow> ('n order \<Rightarrow> 'n order) \<Rightarrow> string option \<Rightarrow>
     prisma_error + 'n order \<times> 'n store" where
  "order_update s i f receipt =
     (case find (\<lambda>ord. id' ord = i) (order_table s) of
        None \<Rightarrow> Inl RecordNotFound
      | Some row \<Rightarrow>
          if receipt \<noteq> None \<and> receipts_of s i \<noteq> [] then Inl UniqueConstraint
          else Inr (f row,
            s\<lparr>order_table := map (\<lambda>ord. if id' ord = i then f ord else ord) (order_table s),
              order_receipt_table := order_receipt_table s @
                 (case receipt of None \<Rightarrow> [] | Some url \<Rightarrow> [(i, url)])\<rparr>))"

section \<open>The remote services and the state of the world\<close>

text \<open>
  The messages sent through \<^verbatim>\<open>this.client.send\<close>: \<^verbatim>\<open>{ cmd: 'validate_products' }\<close>
  with the product identifiers, and \<^verbatim>\<open>'create.payment.session'\<close> with the order
  identifier, the currency and the items as (name, price, quantity).
\<close>

datatype 'n message =
    ValidateProducts "string list"
  | CreatePaymentSession string string "(string \<times> 'n \<times> 'n) list"

text \<open>
  The environment of one invocation: how the remote services answer (\<open>Inl\<close> is the
  payload of a rejection), whether the store rejects the write of \<^verbatim>\<open>order.create\<close>,
  and the current time (\<^verbatim>\<open>new Date()\<close>, the store's \<^verbatim>\<open>now()\<close>).
\<close>

record 'n env =
  validate_products :: "string list \<Rightarrow> payload + 'n product list"
  create_payment_session :: "string \<times> string \<times> (string \<times> 'n \<times> 'n) list \<Rightarrow> payload + string"
  create_rejection :: "prisma_error option"
  now :: nat

text \<open>
  The state the operations act on: the store, the messages sent so far to the remote
  services, and the number of write statements issued to the store.
\<close>

record 'n world =
  db :: "'n store"
  sent :: "'n message list"
  writes :: nat

definition send_validate ::
  "'n env \<Rightarrow> 'n world \<Rightarrow> string list \<Rightarrow> (error + 'n product list) \<times> 'n world" where
  "send_validate e w productIds =
     (case validate_products e productIds of
        Inl err \<Rightarrow> Inl (thrown err)
      | Inr products \<Rightarrow> Inr products,
      w\<lparr>sent := sent w @ [ValidateProducts productIds]\<rparr>)"

section \<open>create\<close>

text \<open>
  \<^verbatim>\<open>createOrderDto.items.reduce((acc, orderItem) => { const product =
  products.find(product => product.id === orderItem.productId); return acc +
  (product.price * orderItem.quantity) }, 0)\<close>: reading \<^verbatim>\<open>price\<close> of a product that
  was not found throws.
\<close>

fun reduce_totalAmount ::
  "('n::{plus,times}) product list \<Rightarrow> 'n \<Rightarrow> 'n order_item list \<Rightarrow> error + 'n" where
  "reduce_totalAmount products acc [] = Inr acc"
| "reduce_totalAmount products acc (orderItem # rest) =
     (case find (\<lambda>product. product.id' product = productId orderItem) products of
        None \<Rightarrow> Inl (TypeError ''price'')
      | Some product \<Rightarrow>
          reduce_totalAmount products (acc + product.price product * quantity orderItem) rest)"

text \<open>\<^verbatim>\<open>createOrderDto.items.reduce((acc, orderItem) => acc + orderItem.quantity, 0)\<close>\<close>

definition reduce_totalItems :: "('n::{zero,plus}) order_item list \<Rightarrow> 'n" where
  "reduce_totalItems its = foldl (\<lambda>acc orderItem. acc + quantity orderItem) 0 its"

text \<open>
  The rows of \<^verbatim>\<open>createMany\<close>: \<^verbatim>\<open>{ price: products.find(...).price, productId,
  quantity }\<close> for each item of the request.
\<close>

fun create_many_data :: "'n product list \<Rightarrow> 'n order_item list \<Rightarrow> error + 'n order_item list" where
  "create_many_data products [] = Inr []"
| "create_many_data products (orderItem # rest) =
     (case find (\<lambda>product. product.id' product = productId orderItem) products of
        None \<Rightarrow> Inl (TypeError ''price'')
      | Some product \<Rightarrow>
          (case create_many_data products rest of
             Inl err \<Rightarrow> Inl err
           | Inr rows \<Rightarrow>
               Inr (\<lparr>productId = productId orderItem, quantity = quantity orderItem,
                     price = product.price product\<rparr> # rows)))"

text \<open>
  \<^verbatim>\<open>OrderItem.map(orderItem => ({ ...orderItem, name: products.find(product =>
  product.id === orderItem.productId).name }))\<close>
\<close>

fun name_items :: "'n product list \<Rightarrow> 'n order_item list \<Rightarrow> error + 'n named_item list" where
  "name_items products [] = Inr []"
| "name_items products (orderItem # rest) =
     (case find (\<lambda>product. product.id' product = productId orderItem) products of
        None \<Rightarrow> Inl (TypeError ''name'')
      | Some product \<Rightarrow>
          (case name_items products rest of
             Inl err \<Rightarrow> Inl err
           | Inr named \<Rightarrow>
               Inr (order_item.extend orderItem (named_item.fields (product.name product)) # named)))"

text \<open>
  The body of \<^verbatim>\<open>create\<close> is one \<^verbatim>\<open>try\<close> block: whatever is thrown inside (the
  rejection of the validator, the error of a lookup, the rejection of the store) is
  rethrown as \<^verbatim>\<open>new RpcException(error)\<close>.
\<close>

definition create ::
  "('n::{zero,plus,times}) env \<Rightarrow> 'n world \<Rightarrow> 'n create_order_dto \<Rightarrow>
     (error + ('n, 'n named_item) order_with) \<times> 'n world" where
  "create e w createOrderDto =
     (let productIds = map productId (items createOrderDto) in
      case send_validate e w productIds of
        (Inl err, w1) \<Rightarrow> (Inl (RpcException err), w1)
      | (Inr products, w1) \<Rightarrow>
          (case reduce_totalAmount products 0 (items createOrderDto) of
             Inl err \<Rightarrow> (Inl (RpcException err), w1)
           | Inr amount \<Rightarrow>
               (case create_many_data products (items createOrderDto) of
                  Inl err \<Rightarrow> (Inl (RpcException err), w1)
                | Inr rows \<Rightarrow>
                    (case order_create (db w1) (create_rejection e) (now e) amount
                            (reduce_totalItems (items createOrderDto)) rows of
                       Inl err \<Rightarrow>
                         (Inl (RpcException (PrismaError err)), w1\<lparr>writes := Suc (writes w1)\<rparr>)
                     | Inr (ord, s') \<Rightarrow>
                         (let w2 = w1\<lparr>db := s', writes := Suc (writes w1)\<rparr> in
                          case name_items products (OrderItem ord) of
                            Inl err \<Rightarrow> (Inl (RpcException err), w2)
                          | Inr named \<Rightarrow> (Inr (with_items ord named), w2))))))"

section \<open>findAll\<close>

record meta =
  page :: nat
  totalPages :: nat
  lastPage :: nat

record 'n find_all_result =
  data :: "'n order list"
  meta :: meta

text \<open>
  \<^verbatim>\<open>const { page, limit, status } = paginationDto\<close>: the three fields are the
  arguments; page and limit are positive integers by the contract of the operation.
  \<open>totalPages\<close> is the variable the source stores the row count in, and
  \<open>lastPage\<close> is \<^verbatim>\<open>Math.ceil(totalPages / limit)\<close>. The count and the limit are
  integers, modelled as natural numbers; for integers below \<open>2^53\<close> the quotient of
  doubles, rounded up, is the exact quotient rounded up, which is what the model computes.
\<close>

definition findAll ::
  "'n world \<Rightarrow> nat \<Rightarrow> nat \<Rightarrow> order_status option \<Rightarrow> 'n find_all_result \<times> 'n world" where
  "findAll w pg limit st =
     (let totalPgs = order_count (db w) st;
          lastPg = nat \<lceil>(of_nat totalPgs :: rat) / of_nat limit\<rceil>;
          orders = order_findMany (db w) limit ((pg - 1) * limit) st
      in (\<lparr>data = orders,
           meta = \<lparr>page = pg, totalPages = totalPgs, lastPage = lastPg\<rparr>\<rparr>, w))"

section \<open>findOne\<close>

text \<open>
  No \<^verbatim>\<open>try\<close> block here: the \<^verbatim>\<open>RpcException\<close> for a missing order is thrown by the
  operation itself, and whatever the remote call or the decoration throws leaves the
  operation as it is.
\<close>

definition findOne ::
  "'n env \<Rightarrow> 'n world \<Rightarrow> string \<Rightarrow> (error + ('n, 'n named_item) order_with) \<times> 'n world" where
  "findOne e w i =
     (case order_findFirst (db w) i of
        None \<Rightarrow>
          (Inl (RpcException (StatusMessage NOT_FOUND (''Order with id ['' @ i @ ''] not found''))), w)
      | Some ord \<Rightarrow>
          (let productIds = map productId (OrderItem ord) in
           case send_validate e w productIds of
             (Inl err, w1) \<Rightarrow> (Inl err, w1)
           | (Inr products, w1) \<Rightarrow>
               (case name_items products (OrderItem ord) of
                  Inl err \<Rightarrow> (Inl err, w1)
                | Inr named \<Rightarrow> (Inr (with_items ord named), w1))))"

section \<open>changeStatus\<close>

text \<open>
  The two shapes \<^verbatim>\<open>changeStatus\<close> returns: the order \<^verbatim>\<open>findOne\<close> gave, with its
  named items, or the row \<^verbatim>\<open>this.order.update\<close> returns, which has no items.
\<close>

datatype 'n change_status_result =
    WithProducts "('n, 'n named_item) order_with"
  | Updated "'n order"

definition changeStatus ::
  "'n env \<Rightarrow> 'n world \<Rightarrow> string \<Rightarrow> order_status \<Rightarrow>
     (error + 'n change_status_result) \<times> 'n world" where
  "changeStatus e w i st =
     (case findOne e w i of
        (Inl err, w1) \<Rightarrow> (Inl err, w1)
      | (Inr ord, w1) \<Rightarrow>
          if status ord = st then (Inr (WithProducts ord), w1)
          else
            (case order_update (db w1) i (\<lambda>row. row\<lparr>status := st\<rparr>) None of
               Inl err \<Rightarrow> (Inl (PrismaError err), w1\<lparr>writes := Suc (writes w1)\<rparr>)
             | Inr (row, s') \<Rightarrow> (Inr (Updated row), w1\<lparr>db := s', writes := Suc (writes w1)\<rparr>)))"

section \<open>createPaymentSession\<close>

text \<open>
  \<^verbatim>\<open>catchError((err) => { throw new RpcException(err) })\<close> wraps the rejection of the
  gateway; the outer \<^verbatim>\<open>catch\<close> logs and rethrows.
\<close>

definition createPaymentSession ::
  "'n env \<Rightarrow> 'n world \<Rightarrow> ('n, 'n named_item) order_with \<Rightarrow> (error + string) \<times> 'n world" where
  "createPaymentSession e w ord =
     (let its = map (\<lambda>item. (name item, price item, quantity item)) (OrderItem ord);
          w1 = w\<lparr>sent := sent w @ [CreatePaymentSession (id' ord) ''usd'' its]\<rparr>
      in case create_payment_session e (id' ord, ''usd'', its) of
           Inl err \<Rightarrow> (Inl (RpcException (thrown err)), w1)
         | Inr paymentSession \<Rightarrow> (Inr paymentSession, w1))"

section \<open>paidOrder\<close>

text \<open>
  One \<^verbatim>\<open>this.order.update\<close> with the four columns and the nested creation of the
  receipt; no \<^verbatim>\<open>try\<close> block.
\<close>

definition paidOrder ::
  "'n env \<Rightarrow> 'n world \<Rightarrow> paid_order_dto \<Rightarrow> (error + 'n order) \<times> 'n world" where
  "paidOrder e w paidOrderDto =
     (case order_update (db w) (orderId paidOrderDto)
             (\<lambda>row. row\<lparr>status := PAID, paid := True, paidAt := Some (now e),
                        stripeChargeId := Some (stripePaymentId paidOrderDto)\<rparr>)
             (Some (receiptUrl paidOrderDto)) of
        Inl err \<Rightarrow> (Inl (PrismaError err), w\<lparr>writes := Suc (writes w)\<rparr>)
      | Inr (row, s') \<Rightarrow> (Inr row, w\<lparr>db := s', writes := Suc (writes w)\<rparr>))"

section \<open>Reachable states\<close>

definition empty_store :: "'n store" where
  "empty_store = \<lparr>order_table = [], order_item_table = [], order_receipt_table = [], next_id = 0\<rparr>"

definition initial :: "'n world" where
  "initial = \<lparr>db = empty_store, sent = [], writes = 0\<rparr>"

text \<open>
  The states the service can be in: it starts on an empty store, and every operation,
  with any arguments and whatever the remote services answer, leads from a reachable
  state to a reachable state.
\<close>

inductive reachable :: "('n::{zero,plus,times}) world \<Rightarrow> bool" where
  r_initial: "reachable initial"
| r_create: "reachable w \<Longrightarrow> reachable (snd (create e w createOrderDto))"
| r_findAll: "reachable w \<Longrightarrow> reachable (snd (findAll w pg limit st))"
| r_findOne: "reachable w \<Longrightarrow> reachable (snd (findOne e w i))"
| r_changeStatus: "reachable w \<Longrightarrow> reachable (snd (changeStatus e w i st))"
| r_createPaymentSession: "reachable w \<Longrightarrow> reachable (snd (createPaymentSession e w ord))"
| r_paidOrder: "reachable w \<Longrightarrow> reachable (snd (paidOrder e w paidOrderDto))"

text \<open>
  An order is paid exactly when it has a receipt, and then it has one: the number of
  receipts of every stored order is 1 if it is paid and 0 if not.
\<close>

definition paid_iff_receipt :: "'n store \<Rightarrow> bool" where
  "paid_iff_receipt s =
     list_all (\<lambda>ord. length (receipts_of s (id' ord)) = (if paid ord then 1 else 0)) (order_table s)"

section \<open>Notions the properties are stated with\<close>

text \<open>
  The price and the name the validator's reply resolves an item to: those of the first
  product of the reply with the item's \<open>productId\<close>, as
  \<^verbatim>\<open>products.find(product => product.id === orderItem.productId)\<close> finds it.
\<close>

definition resolved_price :: "('n::zero) product list \<Rightarrow> 'n order_item \<Rightarrow> 'n" where
  "resolved_price products it =
     (case find (\<lambda>product. product.id' product = productId it) products of
        None \<Rightarrow> 0
      | Some product \<Rightarrow> product.price product)"

definition resolved_name :: "'n product list \<Rightarrow> ('n, 'a) order_item_scheme \<Rightarrow> string" where
  "resolved_name products it =
     (case find (\<lambda>product. product.id' product = productId it) products of
        None \<Rightarrow> []
      | Some product \<Rightarrow> product.name product)"

text \<open>
  The sum of a list of numbers as \<^verbatim>\<open>reduce((acc, x) => acc + x, 0)\<close> computes it: from
  \<open>0\<close>, adding the elements from left to right. In exact arithmetic it is the sum of the
  list; in the arithmetic of doubles every partial sum is rounded.
\<close>

definition js_sum :: "('n::{zero,plus}) list \<Rightarrow> 'n" where
  "js_sum xs = foldl (\<lambda>acc x. acc + x) 0 xs"

text \<open>Every item's \<open>productId\<close> resolves to a product of the reply.\<close>

definition all_resolve :: "'n product list \<Rightarrow> 'n order_item list \<Rightarrow> bool" where
  "all_resolve products its =
     list_all (\<lambda>it. find (\<lambda>product. product.id' product = productId it) products \<noteq> None) its"

text \<open>
  The identifiers the store has handed out, and the well-formedness of a store: rows,
  items and receipts carry identifiers that were handed out (referential integrity), and
  an order is paid exactly when it has its one receipt.
\<close>

definition allocated :: "'n store \<Rightarrow> string set" where
  "allocated s = mk_id ` {..< next_id s}"

definition wf_store :: "'n store \<Rightarrow> bool" where
  "wf_store s =
     (list_all (\<lambda>ord. id' ord \<in> allocated s) (order_table s) \<and>
      list_all (\<lambda>r. fst r \<in> allocated s) (order_item_table s) \<and>
      list_all (\<lambda>r. fst r \<in> allocated s) (order_receipt_table s) \<and>
      paid_iff_receipt s)"

text \<open>The error \<open>findOne\<close> throws for an identifier that names no order.\<close>

definition not_found_error :: "string \<Rightarrow> error" where
  "not_found_error i =
     RpcException (StatusMessage NOT_FOUND (''Order with id ['' @ i @ ''] not found''))"

text \<open>The items with the names the reply resolves them to, as \<open>findOne\<close> returns them.\<close>

definition named :: "'n product list \<Rightarrow> 'n order_item list \<Rightarrow> 'n named_item list" where
  "named products its =
     map (\<lambda>it. order_item.extend it (named_item.fields (resolved_name products it))) its"

text \<open>The order table with the status of the rows of one identifier replaced.\<close>

definition set_status :: "string \<Rightarrow> order_status \<Rightarrow> 'n order list \<Rightarrow> 'n order list" where
  "set_status i st rows = map (\<lambda>row. if id' row = i then row\<lparr>status := st\<rparr> else row) rows"


section \<open>Example data\<close>

text \<open>
  The example of the specification, with rational numbers: products A at 10 and B at 5, a
  request for two A and one B (with client-supplied prices of 1), a request naming an
  unknown product C, and a request naming A twice. Five environments: one where the
  remote services answer and the store accepts; one where the remote services are
  unreachable; one where the store rejects the write of \<open>create\<close>; one where the
  validator rejects the call with an object of status 404; and one where the validator
  knows product A only.
\<close>

definition pA :: "rat product" where
  "pA = \<lparr>product.id' = ''A'', price = 10, name = ''apple''\<rparr>"

definition pB :: "rat product" where
  "pB = \<lparr>product.id' = ''B'', price = 5, name = ''bread''\<rparr>"

definition env_ok :: "rat env" where
  "env_ok = \<lparr>validate_products = (\<lambda>ids. Inr [pA, pB]),
             create_payment_session = (\<lambda>req. Inr ''session''),
             create_rejection = None, now = 7\<rparr>"

definition env_down :: "rat env" where
  "env_down = \<lparr>validate_products = (\<lambda>ids. Inl (OtherPayload ''unreachable'')),
             create_payment_session = (\<lambda>req. Inl (OtherPayload ''unreachable'')),
             create_rejection = None, now = 8\<rparr>"

definition env_store_down :: "rat env" where
  "env_store_down = \<lparr>validate_products = (\<lambda>ids. Inr [pA, pB]),
             create_payment_session = (\<lambda>req. Inr ''session''),
             create_rejection = Some StoreUnavailable, now = 9\<rparr>"

definition env_404 :: "rat env" where
  "env_404 = \<lparr>validate_products =
               (\<lambda>ids. Inl (ObjectPayload 404 ''Order with id [x] not found'')),
             create_payment_session =
               (\<lambda>req. Inl (ObjectPayload 404 ''Order with id [x] not found'')),
             create_rejection = None, now = 10\<rparr>"

definition env_only_A :: "rat env" where
  "env_only_A = \<lparr>validate_products = (\<lambda>ids. Inr [pA]),
             create_payment_session = (\<lambda>req. Inr ''session''),
             create_rejection = None, now = 11\<rparr>"

definition dto_AB :: "rat create_order_dto" where
  "dto_AB = \<lparr>items = [\<lparr>productId = ''A'', quantity = 2, price = 1\<rparr>,
                      \<lparr>productId = ''B'', quantity = 1, price = 1\<rparr>]\<rparr>"

definition dto_AC :: "rat create_order_dto" where
  "dto_AC = \<lparr>items = [\<lparr>productId = ''A'', quantity = 2, price = 1\<rparr>,
                      \<lparr>productId = ''C'', quantity = 1, price = 1\<rparr>]\<rparr>"

definition dto_AA :: "rat create_order_dto" where
  "dto_AA = \<lparr>items = [\<lparr>productId = ''A'', quantity = 2, price = 1\<rparr>,
                      \<lparr>productId = ''A'', quantity = 1, price = 1\<rparr>]\<rparr>"

text \<open>The state after the example's order was created, and that order as stored.\<close>

definition w_one :: "rat world" where
  "w_one = snd (create env_ok initial dto_AB)"

definition ord_one :: "(rat, rat order_item) order_with" where
  "ord_one = \<lparr>id' = ''o'', totalAmount = 25, totalItems = 3, status = PENDING,
               paid = False, paidAt = None, stripeChargeId = None, createdAt = 7,
               OrderItem = [\<lparr>productId = ''A'', quantity = 2, price = 10\<rparr>,
                            \<lparr>productId = ''B'', quantity = 1, price = 5\<rparr>]\<rparr>"

text \<open>
  A store of 25 pending orders; a paid notification for the example's order and one for
  an identifier that names no order; and the state after the example's order was paid and
  then cancelled.
\<close>

definition w_25 :: "rat world" where
  "w_25 = \<lparr>db = \<lparr>order_table =
               map (\<lambda>n. \<lparr>id' = mk_id n, totalAmount = 0, totalItems = 0, status = PENDING,
                           paid = False, paidAt = None, stripeChargeId = None, createdAt = n\<rparr>)
                   [0..<25],
             order_item_table = [], order_receipt_table = [], next_id = 25\<rparr>,
           sent = [], writes = 25\<rparr>"




lemmas example_defs = pA_def pB_def env_ok_def env_down_def env_store_down_def env_404_def
  env_only_A_def dto_AB_def dto_AC_def dto_AA_def

section \<open>The store invariant\<close>

lemma mk_id_inj: "mk_id m = mk_id n \<Longrightarrow> m = n"
proof -
  assume "mk_id m = mk_id n"
  then have "length (mk_id m) = length (mk_id n)" by simp
  then show "m = n" by (simp add: mk_id_def)
qed

lemma fresh_not_allocated: "mk_id (next_id s) \<notin> allocated s"
  by (auto simp: allocated_def dest: mk_id_inj)

lemma items_of_fresh:
  assumes "list_all (\<lambda>r. fst r \<in> allocated s) (order_item_table s)"
  shows "items_of s (mk_id (next_id s)) = []"
proof -
  have "filter (\<lambda>r. fst r = mk_id (next_id s)) (order_item_table s) = []"
    using assms fresh_not_allocated [of s] by (auto simp: filter_empty_conv list_all_iff)
  then show ?thesis by (simp add: items_of_def)
qed

lemma receipts_of_fresh:
  assumes "list_all (\<lambda>r. fst r \<in> allocated s) (order_receipt_table s)"
  shows "receipts_of s (mk_id (next_id s)) = []"
proof -
  have "filter (\<lambda>r. fst r = mk_id (next_id s)) (order_receipt_table s) = []"
    using assms fresh_not_allocated [of s] by (auto simp: filter_empty_conv list_all_iff)
  then show ?thesis by (simp add: receipts_of_def)
qed

lemma wf_order_create:
  assumes "wf_store s" and c: "order_create s rejection tm amount n its = Inr (ord, s')"
  shows "wf_store s'"
proof -
  from c have s': "s' = s\<lparr>order_table := order_table s @
        [\<lparr>id' = mk_id (next_id s), totalAmount = amount, totalItems = n, status = PENDING,
          paid = False, paidAt = None, stripeChargeId = None, createdAt = tm\<rparr>],
      order_item_table := order_item_table s @ map (\<lambda>it. (mk_id (next_id s), it)) its,
      next_id := Suc (next_id s)\<rparr>"
    by (auto simp: order_create_def Let_def split: option.splits)
  have alloc: "allocated s' = insert (mk_id (next_id s)) (allocated s)"
    by (auto simp: s' allocated_def less_Suc_eq)
  have rec: "receipts_of s' i = receipts_of s i" for i
    by (simp add: s' receipts_of_def)
  have fresh: "receipts_of s (mk_id (next_id s)) = []"
    using assms by (simp add: wf_store_def receipts_of_fresh)
  have tbl: "order_table s' = order_table s @
        [\<lparr>id' = mk_id (next_id s), totalAmount = amount, totalItems = n, status = PENDING,
          paid = False, paidAt = None, stripeChargeId = None, createdAt = tm\<rparr>]"
      "order_item_table s' = order_item_table s @ map (\<lambda>it. (mk_id (next_id s), it)) its"
      "order_receipt_table s' = order_receipt_table s"
    by (simp_all add: s')
  show ?thesis
    using assms(1) fresh
    unfolding wf_store_def paid_iff_receipt_def alloc tbl
    by (auto simp: rec list_all_iff)
qed

lemma find_Some_in: "find P xs = Some x \<Longrightarrow> x \<in> set xs \<and> P x"
  by (induction xs) (auto split: if_splits)

lemma wf_order_update:
  assumes wf: "wf_store s"
    and upd: "order_update s i f receipt = Inr (row, s')"
    and keep_id: "\<And>ord. id' (f ord) = id' ord"
    and paid_f: "\<And>ord. paid (f ord) = (if receipt = None then paid ord else True)"
  shows "wf_store s'"
proof -
  from upd obtain r where r: "find (\<lambda>ord. id' ord = i) (order_table s) = Some r"
    and ok: "\<not> (receipt \<noteq> None \<and> receipts_of s i \<noteq> [])"
    and s': "s' = s\<lparr>order_table := map (\<lambda>ord. if id' ord = i then f ord else ord) (order_table s),
              order_receipt_table := order_receipt_table s @
                 (case receipt of None \<Rightarrow> [] | Some url \<Rightarrow> [(i, url)])\<rparr>"
    by (auto simp: order_update_def split: option.splits if_splits)
  from r have "r \<in> set (order_table s)" "id' r = i"
    using find_Some_in [of "\<lambda>ord. id' ord = i" "order_table s" r] by auto
  with wf have i_alloc: "i \<in> allocated s"
    by (auto simp: wf_store_def list_all_iff)
  have alloc: "allocated s' = allocated s"
    by (simp add: s' allocated_def)
  have rec: "receipts_of s' j =
      receipts_of s j @ (case receipt of None \<Rightarrow> [] | Some url \<Rightarrow> if j = i then [url] else [])" for j
    by (auto simp: s' receipts_of_def split: option.splits)
  have tbl: "order_table s' = map (\<lambda>ord. if id' ord = i then f ord else ord) (order_table s)"
      "order_item_table s' = order_item_table s"
      "order_receipt_table s' = order_receipt_table s @
                 (case receipt of None \<Rightarrow> [] | Some url \<Rightarrow> [(i, url)])"
    by (simp_all add: s')
  have "list_all (\<lambda>ord. id' ord \<in> allocated s') (order_table s')"
    using wf unfolding alloc tbl by (auto simp: wf_store_def list_all_iff keep_id)
  moreover have "list_all (\<lambda>r. fst r \<in> allocated s') (order_item_table s')"
    using wf unfolding alloc tbl by (simp add: wf_store_def)
  moreover have "list_all (\<lambda>r. fst r \<in> allocated s') (order_receipt_table s')"
    using wf i_alloc unfolding alloc tbl by (auto simp: wf_store_def split: option.splits)
  moreover have "paid_iff_receipt s'"
    unfolding paid_iff_receipt_def list_all_iff
  proof
    fix ord' assume "ord' \<in> set (order_table s')"
    then obtain ord where ord: "ord \<in> set (order_table s)"
      and ord': "ord' = (if id' ord = i then f ord else ord)"
      unfolding tbl by auto
    from wf ord have pre: "length (receipts_of s (id' ord)) = (if paid ord then 1 else 0)"
      by (auto simp: wf_store_def paid_iff_receipt_def list_all_iff)
    show "length (receipts_of s' (id' ord')) = (if paid ord' then 1 else 0)"
    proof (cases "id' ord = i")
      case True
      then show ?thesis
        using pre ok by (cases receipt) (auto simp: ord' rec keep_id paid_f)
    next
      case False
      then show ?thesis
        using pre by (cases receipt) (auto simp: ord' rec)
    qed
  qed
  ultimately show ?thesis by (simp add: wf_store_def)
qed

lemma wf_empty: "wf_store empty_store"
  by (simp add: wf_store_def empty_store_def paid_iff_receipt_def)

lemma wf_create: "wf_store (db w) \<Longrightarrow> wf_store (db (snd (create e w dto)))"
  by (auto simp: create_def Let_def send_validate_def split: sum.splits prod.splits
        dest: wf_order_create)

lemma wf_findOne: "db (snd (findOne e w i)) = db w"
  by (auto simp: findOne_def Let_def send_validate_def split: option.splits sum.splits prod.splits)

lemma wf_changeStatus: "wf_store (db w) \<Longrightarrow> wf_store (db (snd (changeStatus e w i st)))"
proof -
  assume wf: "wf_store (db w)"
  obtain r w1 where f: "findOne e w i = (r, w1)" by (cases "findOne e w i")
  then have w1: "db w1 = db w" using wf_findOne [of e w i] by simp
  show ?thesis
    using wf w1 f wf_order_update [of "db w" i "\<lambda>row. row\<lparr>status := st\<rparr>" None]
    by (auto simp: changeStatus_def split: sum.splits)
qed

lemma wf_paidOrder: "wf_store (db w) \<Longrightarrow> wf_store (db (snd (paidOrder e w dto)))"
  using wf_order_update [of "db w" "orderId dto"
     "\<lambda>row. row\<lparr>status := PAID, paid := True, paidAt := Some (now e),
                        stripeChargeId := Some (stripePaymentId dto)\<rparr>" "Some (receiptUrl dto)"]
  by (auto simp: paidOrder_def split: sum.splits)

lemma reachable_wf: "reachable w \<Longrightarrow> wf_store (db w)"
proof (induction rule: reachable.induct)
  case r_initial
  then show ?case by (simp add: initial_def wf_empty)
next
  case (r_create w e createOrderDto)
  then show ?case by (simp add: wf_create)
next
  case (r_findAll w pg limit st)
  then show ?case by (simp add: findAll_def Let_def)
next
  case (r_findOne w e i)
  then show ?case by (simp add: wf_findOne)
next
  case (r_changeStatus w e i st)
  then show ?case by (simp add: wf_changeStatus)
next
  case (r_createPaymentSession w e ord)
  then show ?case by (simp add: createPaymentSession_def Let_def split: sum.splits)
next
  case (r_paidOrder w e paidOrderDto)
  then show ?case by (simp add: wf_paidOrder)
qed

section \<open>Order creation\<close>

lemma reduce_totalAmount_resolved:
  "all_resolve products its \<Longrightarrow>
   reduce_totalAmount products acc its =
     Inr (foldl (\<lambda>acc x. acc + x) acc (map (\<lambda>it. resolved_price products it * quantity it) its))"
  by (induction its arbitrary: acc) (auto simp: all_resolve_def resolved_price_def)

lemma reduce_totalItems_sum: "reduce_totalItems its = js_sum (map quantity its)"
  by (simp add: reduce_totalItems_def js_sum_def foldl_map)

lemma foldl_plus: "foldl (\<lambda>acc x. acc + x) a xs = a + sum_list xs"
  for a :: "'a::monoid_add"
  by (induction xs arbitrary: a) (simp_all add: add.assoc)

text \<open>In exact arithmetic \<open>js_sum\<close> is the sum of the list.\<close>

lemma js_sum_exact: "js_sum xs = sum_list xs"
  for xs :: "'a::monoid_add list"
  by (simp add: js_sum_def foldl_plus)

lemma create_many_data_resolved:
  "all_resolve products its \<Longrightarrow>
   create_many_data products its =
     Inr (map (\<lambda>it. \<lparr>productId = productId it, quantity = quantity it,
                      price = resolved_price products it\<rparr>) its)"
  by (induction its) (auto simp: all_resolve_def resolved_price_def)

lemma name_items_resolved:
  "all_resolve products its \<Longrightarrow>
   name_items products its =
     Inr (map (\<lambda>it. order_item.extend it (named_item.fields (resolved_name products it))) its)"
  by (induction its) (auto simp: all_resolve_def resolved_name_def)

lemma all_resolve_rows:
  "all_resolve products its \<Longrightarrow>
   all_resolve products (map (\<lambda>it. \<lparr>productId = productId it, quantity = quantity it,
                      price = g it\<rparr>) its)"
  by (simp add: all_resolve_def list_all_iff)

lemma order_create_fresh:
  assumes "wf_store s"
  shows "order_create s None tm amount n its =
    Inr (\<lparr>id' = mk_id (next_id s), totalAmount = amount, totalItems = n, status = PENDING,
       paid = False, paidAt = None, stripeChargeId = None, createdAt = tm, OrderItem = its\<rparr>,
     s\<lparr>order_table := order_table s @
          [\<lparr>id' = mk_id (next_id s), totalAmount = amount, totalItems = n, status = PENDING,
            paid = False, paidAt = None, stripeChargeId = None, createdAt = tm\<rparr>],
        order_item_table := order_item_table s @ map (\<lambda>it. (mk_id (next_id s), it)) its,
        next_id := Suc (next_id s)\<rparr>)"
proof -
  have "filter (\<lambda>r. fst r = mk_id (next_id s)) (order_item_table s) = []"
    using assms items_of_fresh [of s] by (simp add: wf_store_def items_of_def)
  then show ?thesis
    by (simp add: order_create_def Let_def items_of_def order.extend_def order_with.fields_def
          filter_map comp_def)
qed

lemma reduce_totalAmount_price:
  "reduce_totalAmount products acc (map (\<lambda>it. it\<lparr>price := f it\<rparr>) its) =
   reduce_totalAmount products acc its"
  by (induction its arbitrary: acc) (auto split: option.splits)

lemma create_many_data_price:
  "create_many_data products (map (\<lambda>it. it\<lparr>price := f it\<rparr>) its) =
   create_many_data products its"
  by (induction its) (auto split: option.splits sum.splits)

lemma reduce_totalItems_price:
  "reduce_totalItems (map (\<lambda>it. it\<lparr>price := f it\<rparr>) its) = reduce_totalItems its"
  by (simp add: reduce_totalItems_sum comp_def)

lemma create_ignores_price:
  "create e w (dto\<lparr>items := map (\<lambda>it. it\<lparr>price := f it\<rparr>) (items dto)\<rparr>) = create e w dto"
  by (simp add: create_def reduce_totalAmount_price create_many_data_price
        reduce_totalItems_price comp_def split: prod.splits sum.splits)

lemma create_accepted:
  assumes "reachable w"
    and "validate_products e (map productId (items dto)) = Inr products"
    and "all_resolve products (items dto)"
    and "create_rejection e = None"
  shows "\<exists>ord w'. create e w dto = (Inr ord, w') \<and>
      totalAmount ord = js_sum (map (\<lambda>it. resolved_price products it * quantity it) (items dto)) \<and>
      totalItems ord = js_sum (map quantity (items dto)) \<and>
      map price (OrderItem ord) = map (resolved_price products) (items dto) \<and>
      order_table (db w') = order_table (db w) @ [order.truncate ord]"
proof -
  let ?rows = "map (\<lambda>it. \<lparr>productId = productId it, quantity = quantity it,
                      price = resolved_price products it\<rparr>) (items dto)"
  have wf: "wf_store (db w)" using assms(1) by (rule reachable_wf)
  have named: "name_items products ?rows =
     Inr (map (\<lambda>it. order_item.extend it (named_item.fields (resolved_name products it))) ?rows)"
    using assms(3) by (intro name_items_resolved all_resolve_rows)
  show ?thesis
    using assms(2,4)
    by (simp add: create_def send_validate_def reduce_totalAmount_resolved [OF assms(3)]
          create_many_data_resolved [OF assms(3)] order_create_fresh [OF wf] named
          reduce_totalItems_sum js_sum_def with_items_def order.extend_def order.truncate_def
          order_with.fields_def order_item.extend_def named_item.fields_def comp_def)
qed

lemma create_rejected:
  assumes "validate_products e (map productId (items dto)) = Inr products"
    and "all_resolve products (items dto)"
    and "create_rejection e = Some err"
  shows "create e w dto =
     (Inl (RpcException (PrismaError err)),
      w\<lparr>sent := sent w @ [ValidateProducts (map productId (items dto))],
        writes := Suc (writes w)\<rparr>)"
  using assms(1,3)
  by (simp add: create_def send_validate_def reduce_totalAmount_resolved [OF assms(2)]
        create_many_data_resolved [OF assms(2)] order_create_def)

text \<open>
  C1. In a reachable state, when the validator's reply resolves the \<open>productId\<close> of every
  item of the request: if the store accepts the write, \<open>create\<close> returns an order, which
  it has persisted, whose \<open>totalAmount\<close> is the sum of resolved price times quantity over
  the items and whose \<open>totalItems\<close> is the sum of the quantities, both accumulated from 0
  in the order of the request in the arithmetic of numbers, and the items carry the
  resolved prices; if the store rejects the write, \<open>create\<close> fails with the
  \<open>RpcException\<close> of the rejection and the store is as before. In both cases, replacing
  the client-supplied prices of the request by any others changes nothing.
\<close>

theorem create_totals:
  assumes "reachable w"
    and "validate_products e (map productId (items dto)) = Inr products"
    and "all_resolve products (items dto)"
  shows "(create_rejection e = None \<longrightarrow>
           (\<exists>ord w'. create e w dto = (Inr ord, w') \<and>
              totalAmount ord =
                js_sum (map (\<lambda>it. resolved_price products it * quantity it) (items dto)) \<and>
              totalItems ord = js_sum (map quantity (items dto)) \<and>
              map price (OrderItem ord) = map (resolved_price products) (items dto) \<and>
              order_table (db w') = order_table (db w) @ [order.truncate ord])) \<and>
         (\<forall>err. create_rejection e = Some err \<longrightarrow>
           fst (create e w dto) = Inl (RpcException (PrismaError err)) \<and>
           db (snd (create e w dto)) = db w) \<and>
         (\<forall>f. create e w (dto\<lparr>items := map (\<lambda>it. it\<lparr>price := f it\<rparr>) (items dto)\<rparr>) =
              create e w dto)"
proof (intro conjI allI impI)
  assume "create_rejection e = None"
  with assms show "\<exists>ord w'. create e w dto = (Inr ord, w') \<and>
      totalAmount ord =
        js_sum (map (\<lambda>it. resolved_price products it * quantity it) (items dto)) \<and>
      totalItems ord = js_sum (map quantity (items dto)) \<and>
      map price (OrderItem ord) = map (resolved_price products) (items dto) \<and>
      order_table (db w') = order_table (db w) @ [order.truncate ord]"
    by (rule create_accepted)
next
  fix err assume r: "create_rejection e = Some err"
  show "fst (create e w dto) = Inl (RpcException (PrismaError err))"
    by (simp add: create_rejected [OF assms(2,3) r])
  show "db (snd (create e w dto)) = db w"
    by (simp add: create_rejected [OF assms(2,3) r])
next
  fix f
  show "create e w (dto\<lparr>items := map (\<lambda>it. it\<lparr>price := f it\<rparr>) (items dto)\<rparr>) = create e w dto"
    by (rule create_ignores_price)
qed

theorem create_totals_witness:
  "reachable (initial :: rat world) \<and>
   validate_products env_ok (map productId (items dto_AB)) = Inr [pA, pB] \<and>
   all_resolve [pA, pB] (items dto_AB) \<and>
   create_rejection env_ok = None \<and>
   (\<exists>ord w'. create env_ok initial dto_AB = (Inr ord, w') \<and>
      totalAmount ord = 25 \<and> totalItems ord = 3 \<and> map price (OrderItem ord) = [10, 5]) \<and>
   validate_products env_store_down (map productId (items dto_AB)) = Inr [pA, pB] \<and>
   create_rejection env_store_down = Some StoreUnavailable \<and>
   fst (create env_store_down initial dto_AB) =
     Inl (RpcException (PrismaError StoreUnavailable)) \<and>
   db (snd (create env_store_down initial dto_AB)) = empty_store"
proof -
  have h1: "reachable (initial :: rat world)" by (rule r_initial)
  have h2: "validate_products env_ok (map productId (items dto_AB)) = Inr [pA, pB]"
    by (simp add: env_ok_def)
  have h3: "all_resolve [pA, pB] (items dto_AB)"
    by (simp add: all_resolve_def example_defs)
  have h4: "create_rejection env_ok = None"
    by (simp add: env_ok_def)
  have h5: "validate_products env_store_down (map productId (items dto_AB)) = Inr [pA, pB]"
    by (simp add: env_store_down_def)
  have h6: "create_rejection env_store_down = Some StoreUnavailable"
    by (simp add: env_store_down_def)
  from create_totals [OF h1 h2 h3] h4 obtain ord w' where
    "create env_ok initial dto_AB = (Inr ord, w')"
    "totalAmount ord = js_sum (map (\<lambda>it. resolved_price [pA, pB] it * quantity it) (items dto_AB))"
    "totalItems ord = js_sum (map quantity (items dto_AB))"
    "map price (OrderItem ord) = map (resolved_price [pA, pB]) (items dto_AB)"
    by blast
  moreover have "js_sum (map (\<lambda>it. resolved_price [pA, pB] it * quantity it) (items dto_AB)) = 25"
    by (simp add: js_sum_def resolved_price_def example_defs)
  moreover have "js_sum (map quantity (items dto_AB)) = 3"
    by (simp add: js_sum_def example_defs)
  moreover have "map (resolved_price [pA, pB]) (items dto_AB) = [10, 5]"
    by (simp add: resolved_price_def example_defs)
  moreover from create_totals [OF h1 h5 h3] h6 have
    "fst (create env_store_down initial dto_AB) =
       Inl (RpcException (PrismaError StoreUnavailable)) \<and>
     db (snd (create env_store_down initial dto_AB)) = db (initial :: rat world)"
    by blast
  ultimately show ?thesis using h1 h2 h3 h4 h5 h6 by (auto simp: initial_def)
qed

text \<open>
  Every item of the example's request resolves, the store rejects the write, and
  \<open>create\<close> returns no order.
\<close>

theorem create_store_rejects:
  "validate_products env_store_down (map productId (items dto_AB)) = Inr [pA, pB] \<and>
   all_resolve [pA, pB] (items dto_AB) \<and>
   create env_store_down initial dto_AB =
     (Inl (RpcException (PrismaError StoreUnavailable)),
      \<lparr>db = empty_store, sent = [ValidateProducts [''A'', ''B'']], writes = 1\<rparr>)"
  by (simp add: create_def send_validate_def order_create_def all_resolve_def example_defs
        initial_def)

lemma reduce_totalAmount_unresolved:
  "\<not> all_resolve products its \<Longrightarrow> reduce_totalAmount products acc its = Inl (TypeError ''price'')"
  by (induction its arbitrary: acc) (auto simp: all_resolve_def split: option.splits)

text \<open>
  C2. When the validator's reply does not resolve the \<open>productId\<close> of some item of the
  request, \<open>create\<close> fails, with the \<open>RpcException\<close> wrapping the error of the lookup, and
  the store is as before: no write statement was issued.
\<close>

theorem create_unresolved_no_write:
  assumes "validate_products e (map productId (items dto)) = Inr products"
    and "\<not> all_resolve products (items dto)"
  shows "\<exists>err w'. create e w dto = (Inl (RpcException err), w') \<and>
           err = TypeError ''price'' \<and> db w' = db w \<and> writes w' = writes w"
  using assms
  by (simp add: create_def send_validate_def reduce_totalAmount_unresolved)

theorem create_unresolved_no_write_witness:
  "validate_products env_ok (map productId (items dto_AC)) = Inr [pA, pB] \<and>
   \<not> all_resolve [pA, pB] (items dto_AC) \<and>
   (\<exists>err w'. create env_ok initial dto_AC = (Inl (RpcException err), w') \<and>
           db w' = empty_store \<and> writes w' = 0)"
proof -
  have h1: "validate_products env_ok (map productId (items dto_AC)) = Inr [pA, pB]"
    by (simp add: env_ok_def)
  have h2: "\<not> all_resolve [pA, pB] (items dto_AC)"
    by (simp add: all_resolve_def example_defs)
  show ?thesis
    using h1 h2 create_unresolved_no_write [OF h1 h2, of initial]
    by (auto simp: initial_def)
qed

lemma sent_create:
  "sent (snd (create e w dto)) = sent w @ [ValidateProducts (map productId (items dto))]"
  by (simp add: create_def send_validate_def Let_def split: sum.splits prod.splits)

text \<open>
  C8. \<open>create\<close> sends exactly one message to the validator, and its list is the
  \<open>productId\<close>s of the request's items in the order of the request, one entry per item:
  every requested identifier appears, and an identifier requested twice appears twice.
\<close>

theorem create_sends_productIds:
  "sent (snd (create e w dto)) = sent w @ [ValidateProducts (map productId (items dto))] \<and>
   set (map productId (items dto)) = productId ` set (items dto) \<and>
   length (map productId (items dto)) = length (items dto)"
  by (simp add: sent_create)

text \<open>
  The list sent for a request that names product A twice holds A twice: it is not the
  collection of the distinct identifiers.
\<close>

theorem create_sends_duplicates:
  "sent (snd (create env_ok initial dto_AA)) = [ValidateProducts [''A'', ''A'']] \<and>
   \<not> distinct [''A'', ''A'']"
  by (simp add: sent_create initial_def dto_AA_def)

section \<open>The example state\<close>

lemma w_one_eq:
  "w_one = \<lparr>db = \<lparr>order_table = [\<lparr>id' = ''o'', totalAmount = 25, totalItems = 3, status = PENDING,
                     paid = False, paidAt = None, stripeChargeId = None, createdAt = 7\<rparr>],
              order_item_table = [(''o'', \<lparr>productId = ''A'', quantity = 2, price = 10\<rparr>),
                                  (''o'', \<lparr>productId = ''B'', quantity = 1, price = 5\<rparr>)],
              order_receipt_table = [], next_id = 1\<rparr>,
           sent = [ValidateProducts [''A'', ''B'']], writes = 1\<rparr>"
  by (simp add: w_one_def create_def send_validate_def example_defs initial_def empty_store_def
        order_create_def Let_def reduce_totalItems_def items_of_def mk_id_def with_items_def
        order.extend_def order.truncate_def order_with.fields_def order_item.extend_def
        named_item.fields_def)

lemma findFirst_w_one: "order_findFirst (db w_one) ''o'' = Some ord_one"
  by (simp add: w_one_eq order_findFirst_def items_of_def ord_one_def order.extend_def
        order_with.fields_def)

lemma validate_ord_one:
  "validate_products env_ok (map productId (OrderItem ord_one)) = Inr [pA, pB]"
  by (simp add: env_ok_def)

lemma resolve_ord_one: "all_resolve [pA, pB] (OrderItem ord_one)"
  by (simp add: all_resolve_def ord_one_def pA_def pB_def)

section \<open>Point lookup\<close>

lemma name_items_error: "name_items products its = Inl err \<Longrightarrow> err = TypeError ''name''"
  by (induction its arbitrary: err) (auto split: option.splits sum.splits)

lemma thrown_not_RpcException: "thrown p \<noteq> RpcException err"
  by (cases p) simp_all

lemma findOne_existing_error:
  assumes "order_findFirst (db w) i = Some ord" and "fst (findOne e w i) = Inl err"
  shows "(\<exists>p. err = thrown p) \<or> err = TypeError ''name''"
  using assms
  by (auto simp: findOne_def Let_def send_validate_def split: sum.splits dest: name_items_error)

lemma create_rethrows:
  assumes "validate_products e (map productId (items dto)) = Inl p"
  shows "fst (create e w dto) = Inl (RpcException (thrown p))"
  using assms by (simp add: create_def send_validate_def)

lemma createPaymentSession_rethrows:
  assumes "create_payment_session e
             (id' ord, ''usd'', map (\<lambda>item. (name item, price item, quantity item)) (OrderItem ord)) =
           Inl p"
  shows "fst (createPaymentSession e w ord) = Inl (RpcException (thrown p))"
  using assms by (simp add: createPaymentSession_def Let_def)

text \<open>
  C5. For an identifier that names no order, \<open>findOne\<close> fails with the \<open>RpcException\<close>
  of status \<open>NOT_FOUND\<close> whose message carries the identifier, without calling the
  validator and without returning a value. No failure of \<open>findOne\<close> on an existing order
  is this error. The error is not told apart from every dependency failure: \<open>create\<close>
  and \<open>createPaymentSession\<close> rethrow whatever their remote call rejected with inside an
  \<open>RpcException\<close>, and for a remote service that rejects with the same object their
  failure is this very error.
\<close>

theorem findOne_not_found:
  assumes "order_findFirst (db w) i = None"
  shows "findOne e w i =
           (Inl (RpcException (StatusMessage NOT_FOUND (''Order with id ['' @ i @ ''] not found''))), w) \<and>
         (\<forall>e' w' j. order_findFirst (db w') j \<noteq> None \<longrightarrow>
              fst (findOne e' (w' :: 'n world) j) \<noteq> Inl (not_found_error i)) \<and>
         (\<forall>w' dto. \<exists>e'. fst (create e' (w' :: ('n::{zero,plus,times}) world) dto) =
              Inl (not_found_error i)) \<and>
         (\<forall>w' ord. \<exists>e'. fst (createPaymentSession e' (w' :: 'n world) ord) =
              Inl (not_found_error i))"
proof (intro conjI allI impI)
  show "findOne e w i =
      (Inl (RpcException (StatusMessage NOT_FOUND (''Order with id ['' @ i @ ''] not found''))), w)"
    using assms by (simp add: findOne_def)
next
  fix e' and w' :: "'n world" and j assume "order_findFirst (db w') j \<noteq> None"
  then obtain ord where "order_findFirst (db w') j = Some ord" by auto
  then show "fst (findOne e' w' j) \<noteq> Inl (not_found_error i)"
    using findOne_existing_error [of w' j ord e' "not_found_error i"]
    by (auto simp: not_found_error_def thrown_not_RpcException [symmetric])
next
  let ?p = "ObjectPayload NOT_FOUND (''Order with id ['' @ i @ ''] not found'')"
  let ?e = "\<lparr>validate_products = (\<lambda>ids. Inl ?p), create_payment_session = (\<lambda>req. Inl ?p),
             create_rejection = None, now = 0\<rparr> :: 'n env"
  fix w' :: "'n world"
  { fix dto
    have "fst (create ?e w' dto) = Inl (not_found_error i)"
      using create_rethrows [of ?e dto ?p w'] by (simp add: not_found_error_def)
    then show "\<exists>e'. fst (create e' w' dto) = Inl (not_found_error i)" .. }
  { fix ord
    have "fst (createPaymentSession ?e w' ord) = Inl (not_found_error i)"
      using createPaymentSession_rethrows [of ?e ord ?p w'] by (simp add: not_found_error_def)
    then show "\<exists>e'. fst (createPaymentSession e' w' ord) = Inl (not_found_error i)" .. }
qed

theorem findOne_not_found_witness:
  "order_findFirst (db w_one) ''x'' = None \<and>
   findOne env_ok w_one ''x'' =
     (Inl (RpcException (StatusMessage 404 ''Order with id [x] not found'')), w_one) \<and>
   order_findFirst (db w_one) ''o'' \<noteq> None \<and>
   fst (findOne env_down w_one ''o'') \<noteq> Inl (not_found_error ''x'') \<and>
   (\<exists>e'. fst (create e' w_one dto_AB) = Inl (not_found_error ''x''))"
proof -
  have h: "order_findFirst (db w_one) ''x'' = None"
    by (simp add: w_one_eq order_findFirst_def)
  have h2: "order_findFirst (db w_one) ''o'' \<noteq> None"
    by (simp add: w_one_eq order_findFirst_def)
  from findOne_not_found [OF h, of env_ok] h2
  show ?thesis using h by (auto simp: NOT_FOUND_def)
qed

text \<open>
  The validator rejects the call of \<open>create\<close> with an object of status 404: the failure
  of \<open>create\<close>, a dependency failure, is the error \<open>findOne\<close> throws for the missing
  order x.
\<close>

theorem create_failure_is_not_found:
  "order_findFirst (db w_one) ''x'' = None \<and>
   fst (findOne env_ok w_one ''x'') =
     Inl (RpcException (StatusMessage 404 ''Order with id [x] not found'')) \<and>
   validate_products env_404 (map productId (items dto_AB)) =
     Inl (ObjectPayload 404 ''Order with id [x] not found'') \<and>
   fst (create env_404 w_one dto_AB) =
     Inl (RpcException (StatusMessage 404 ''Order with id [x] not found''))"
  by (simp add: w_one_eq order_findFirst_def findOne_def create_def send_validate_def
        env_404_def NOT_FOUND_def)

text \<open>
  C9. On the existing order of the example, with remote services that reject every call,
  \<open>findOne\<close> and \<open>changeStatus\<close> fail with the validator's rejection as it is, not
  wrapped in an \<open>RpcException\<close>, whereas \<open>create\<close> wraps the same rejection and
  \<open>createPaymentSession\<close> wraps the rejection of the payment gateway.
\<close>

theorem findOne_remote_error_raw:
  "order_findFirst (db w_one) ''o'' \<noteq> None \<and>
   fst (findOne env_down w_one ''o'') = Inl (RemoteError ''unreachable'') \<and>
   fst (changeStatus env_down w_one ''o'' CANCELLED) = Inl (RemoteError ''unreachable'') \<and>
   fst (create env_down w_one dto_AB) = Inl (RpcException (RemoteError ''unreachable'')) \<and>
   fst (createPaymentSession env_down w_one (with_items ord_one (named [pA, pB] (OrderItem ord_one)))) =
     Inl (RpcException (RemoteError ''unreachable''))"
  by (simp add: w_one_eq order_findFirst_def findOne_def changeStatus_def create_def
        createPaymentSession_def send_validate_def items_of_def env_down_def order.extend_def
        order_with.fields_def)

section \<open>Status transition\<close>

lemma findOne_existing:
  assumes "order_findFirst (db w) i = Some ord"
    and "validate_products e (map productId (OrderItem ord)) = Inr products"
    and "all_resolve products (OrderItem ord)"
  shows "findOne e w i =
    (Inr (with_items ord (named products (OrderItem ord))),
     w\<lparr>sent := sent w @ [ValidateProducts (map productId (OrderItem ord))]\<rparr>)"
  using assms(1,2)
  by (simp add: findOne_def send_validate_def name_items_resolved [OF assms(3)] named_def)

lemma findOne_world:
  assumes "order_findFirst (db w) i = Some ord"
  shows "snd (findOne e w i) = w\<lparr>sent := sent w @ [ValidateProducts (map productId (OrderItem ord))]\<rparr>"
  using assms
  by (simp add: findOne_def send_validate_def Let_def split: sum.splits)

lemma findOne_result:
  assumes "order_findFirst (db w) i = Some ord" and "findOne e w i = (Inr res, w1)"
  shows "\<exists>xs. res = with_items ord xs"
  using assms
  by (auto simp: findOne_def send_validate_def Let_def split: sum.splits)

lemma status_with_items: "status (with_items ord xs) = status ord"
  by (simp add: with_items_def order.extend_def order.truncate_def)

lemma truncate_with_items: "order.truncate (with_items ord xs) = order.truncate ord"
  by (simp add: with_items_def order.extend_def order.truncate_def)

lemma OrderItem_with_items: "OrderItem (with_items ord xs) = xs"
  by (simp add: with_items_def order.extend_def order.truncate_def order_with.fields_def)

lemma truncate_named: "map order_item.truncate (named products its) = its"
  by (induction its) (simp_all add: named_def order_item.truncate_def order_item.extend_def)

lemma name_named: "map name (named products its) = map (resolved_name products) its"
  by (simp add: named_def order_item.extend_def named_item.fields_def)

lemma changeStatus_same:
  assumes "order_findFirst (db w) i = Some ord" and "status ord = st"
  shows "changeStatus e w i st =
     (case fst (findOne e w i) of Inl err \<Rightarrow> Inl err | Inr res \<Rightarrow> Inr (WithProducts res),
      w\<lparr>sent := sent w @ [ValidateProducts (map productId (OrderItem ord))]\<rparr>)"
proof (cases "findOne e w i")
  case (Pair r w1)
  then have w1: "w1 = w\<lparr>sent := sent w @ [ValidateProducts (map productId (OrderItem ord))]\<rparr>"
    using findOne_world [OF assms(1), of e] by simp
  show ?thesis
  proof (cases r)
    case (Inl err)
    then show ?thesis using Pair w1 by (simp add: changeStatus_def)
  next
    case (Inr res)
    then obtain xs where "res = with_items ord xs"
      using findOne_result [OF assms(1)] Pair by blast
    then show ?thesis using Pair Inr w1 assms(2) by (simp add: changeStatus_def status_with_items)
  qed
qed

lemma name_items_unresolved:
  "\<not> all_resolve products its \<Longrightarrow> name_items products its = Inl (TypeError ''name'')"
  by (induction its) (auto simp: all_resolve_def split: option.splits)

lemma findOne_rejected:
  assumes "order_findFirst (db w) i = Some ord"
    and "validate_products e (map productId (OrderItem ord)) = Inl p"
  shows "findOne e w i =
    (Inl (thrown p), w\<lparr>sent := sent w @ [ValidateProducts (map productId (OrderItem ord))]\<rparr>)"
  using assms by (simp add: findOne_def send_validate_def)

lemma findOne_unresolved:
  assumes "order_findFirst (db w) i = Some ord"
    and "validate_products e (map productId (OrderItem ord)) = Inr products"
    and "\<not> all_resolve products (OrderItem ord)"
  shows "findOne e w i =
    (Inl (TypeError ''name''),
     w\<lparr>sent := sent w @ [ValidateProducts (map productId (OrderItem ord))]\<rparr>)"
  using assms(1,2)
  by (simp add: findOne_def send_validate_def name_items_unresolved [OF assms(3)])

lemma changeStatus_findOne_fails:
  assumes "findOne e w i = (Inl err, w1)"
  shows "changeStatus e w i st = (Inl err, w1)"
  using assms by (simp add: changeStatus_def)

text \<open>
  C6. For an existing order whose status is the requested one, \<open>changeStatus\<close> leaves the
  store as it is and issues no write statement, whatever the validator answers. It
  returns the order, with the columns and the items it has in the store (the items
  decorated with names), when the embedded \<open>findOne\<close> succeeds, that is when the
  validator's reply resolves the order's items. When the validator rejects the call,
  \<open>changeStatus\<close> fails with that rejection, and when the reply does not resolve an item
  it fails with the error of the lookup of the name.
\<close>

theorem changeStatus_noop:
  assumes "order_findFirst (db w) i = Some ord" and "status ord = st"
  shows "db (snd (changeStatus e w i st)) = db w \<and>
         writes (snd (changeStatus e w i st)) = writes w \<and>
         (\<forall>products. validate_products e (map productId (OrderItem ord)) = Inr products \<and>
              all_resolve products (OrderItem ord) \<longrightarrow>
            (\<exists>res. fst (changeStatus e w i st) = Inr (WithProducts res) \<and>
                   order.truncate res = order.truncate ord \<and>
                   map order_item.truncate (OrderItem res) = OrderItem ord)) \<and>
         (\<forall>p. validate_products e (map productId (OrderItem ord)) = Inl p \<longrightarrow>
            fst (changeStatus e w i st) = Inl (thrown p)) \<and>
         (\<forall>products. validate_products e (map productId (OrderItem ord)) = Inr products \<and>
              \<not> all_resolve products (OrderItem ord) \<longrightarrow>
            fst (changeStatus e w i st) = Inl (TypeError ''name''))"
proof (intro conjI allI impI)
  show "db (snd (changeStatus e w i st)) = db w"
    by (simp add: changeStatus_same [OF assms])
  show "writes (snd (changeStatus e w i st)) = writes w"
    by (simp add: changeStatus_same [OF assms])
next
  fix products
  assume h: "validate_products e (map productId (OrderItem ord)) = Inr products \<and>
      all_resolve products (OrderItem ord)"
  then have "fst (findOne e w i) = Inr (with_items ord (named products (OrderItem ord)))"
    using findOne_existing [OF assms(1), of e products] by simp
  then have "fst (changeStatus e w i st) =
      Inr (WithProducts (with_items ord (named products (OrderItem ord))))"
    by (simp add: changeStatus_same [OF assms])
  then show "\<exists>res. fst (changeStatus e w i st) = Inr (WithProducts res) \<and>
                   order.truncate res = order.truncate ord \<and>
                   map order_item.truncate (OrderItem res) = OrderItem ord"
    by (simp add: truncate_with_items OrderItem_with_items truncate_named)
next
  fix p assume "validate_products e (map productId (OrderItem ord)) = Inl p"
  then show "fst (changeStatus e w i st) = Inl (thrown p)"
    using changeStatus_findOne_fails [OF findOne_rejected [OF assms(1)], of e p st] by simp
next
  fix products
  assume "validate_products e (map productId (OrderItem ord)) = Inr products \<and>
      \<not> all_resolve products (OrderItem ord)"
  then show "fst (changeStatus e w i st) = Inl (TypeError ''name'')"
    using changeStatus_findOne_fails [OF findOne_unresolved [OF assms(1)], of e products st]
    by simp
qed

theorem changeStatus_noop_witness:
  "order_findFirst (db w_one) ''o'' = Some ord_one \<and> status ord_one = PENDING \<and>
   validate_products env_ok (map productId (OrderItem ord_one)) = Inr [pA, pB] \<and>
   all_resolve [pA, pB] (OrderItem ord_one) \<and>
   db (snd (changeStatus env_ok w_one ''o'' PENDING)) = db w_one \<and>
   writes (snd (changeStatus env_ok w_one ''o'' PENDING)) = 1 \<and>
   (\<exists>res. fst (changeStatus env_ok w_one ''o'' PENDING) = Inr (WithProducts res) \<and>
          order.truncate res = order.truncate ord_one \<and>
          map order_item.truncate (OrderItem res) = OrderItem ord_one) \<and>
   validate_products env_down (map productId (OrderItem ord_one)) =
     Inl (OtherPayload ''unreachable'') \<and>
   fst (changeStatus env_down w_one ''o'' PENDING) = Inl (RemoteError ''unreachable'') \<and>
   validate_products env_only_A (map productId (OrderItem ord_one)) = Inr [pA] \<and>
   \<not> all_resolve [pA] (OrderItem ord_one) \<and>
   fst (changeStatus env_only_A w_one ''o'' PENDING) = Inl (TypeError ''name'')"
proof -
  have st: "status ord_one = PENDING" by (simp add: ord_one_def)
  have wr: "writes w_one = 1" by (simp add: w_one_eq)
  have d: "validate_products env_down (map productId (OrderItem ord_one)) =
      Inl (OtherPayload ''unreachable'')"
    by (simp add: env_down_def)
  have a: "validate_products env_only_A (map productId (OrderItem ord_one)) = Inr [pA]"
    by (simp add: env_only_A_def)
  have u: "\<not> all_resolve [pA] (OrderItem ord_one)"
    by (simp add: all_resolve_def ord_one_def pA_def)
  from changeStatus_noop [OF findFirst_w_one st, of env_ok]
    changeStatus_noop [OF findFirst_w_one st, of env_down]
    changeStatus_noop [OF findFirst_w_one st, of env_only_A]
  show ?thesis
    using findFirst_w_one st validate_ord_one resolve_ord_one wr d a u by auto
qed

text \<open>
  The example's order is pending and pending is requested, but the validator is
  unreachable: \<open>changeStatus\<close> returns no order.
\<close>

theorem changeStatus_noop_validator_down:
  "order_findFirst (db w_one) ''o'' = Some ord_one \<and> status ord_one = PENDING \<and>
   fst (changeStatus env_down w_one ''o'' PENDING) = Inl (RemoteError ''unreachable'')"
  by (simp add: w_one_eq ord_one_def order_findFirst_def findOne_def changeStatus_def
        send_validate_def items_of_def env_down_def order.extend_def order_with.fields_def)


lemma order_update_status:
  assumes "order_findFirst s i = Some ord"
  shows "order_update s i (\<lambda>row. row\<lparr>status := st\<rparr>) None =
     Inr ((order.truncate ord)\<lparr>status := st\<rparr>, s\<lparr>order_table := set_status i st (order_table s)\<rparr>)"
  using assms
  by (auto simp: order_update_def order_findFirst_def set_status_def order.extend_def
        order.truncate_def split: option.splits)

lemma changeStatus_other:
  assumes "order_findFirst (db w) i = Some ord" and "status ord \<noteq> st"
    and "validate_products e (map productId (OrderItem ord)) = Inr products"
    and "all_resolve products (OrderItem ord)"
  shows "changeStatus e w i st =
     (Inr (Updated ((order.truncate ord)\<lparr>status := st\<rparr>)),
      w\<lparr>sent := sent w @ [ValidateProducts (map productId (OrderItem ord))],
        db := (db w)\<lparr>order_table := set_status i st (order_table (db w))\<rparr>,
        writes := Suc (writes w)\<rparr>)"
  using assms(2)
  by (simp add: changeStatus_def findOne_existing [OF assms(1,3,4)] status_with_items
        order_update_status [OF assms(1)])





text \<open>
  C10. Every \<open>changeStatus\<close> on an existing order sends one message to the validator, with
  the \<open>productId\<close>s of the order's items, also when the status already is the requested
  one. When the reply resolves the items, the result is the order with its items
  decorated with names if the status is the requested one, and otherwise the updated
  row, which has no items.
\<close>

theorem changeStatus_validates_and_shapes:
  assumes "order_findFirst (db w) i = Some ord"
  shows "sent (snd (changeStatus e w i st)) =
           sent w @ [ValidateProducts (map productId (OrderItem ord))] \<and>
         (\<forall>products. validate_products e (map productId (OrderItem ord)) = Inr products \<and>
              all_resolve products (OrderItem ord) \<longrightarrow>
            fst (changeStatus e w i st) =
              (if status ord = st
               then Inr (WithProducts (with_items ord (named products (OrderItem ord))))
               else Inr (Updated ((order.truncate ord)\<lparr>status := st\<rparr>))))"
proof (intro conjI allI impI)
  obtain r w1 where f: "findOne e w i = (r, w1)" by (cases "findOne e w i")
  then have w1: "w1 = w\<lparr>sent := sent w @ [ValidateProducts (map productId (OrderItem ord))]\<rparr>"
    using findOne_world [OF assms, of e] by simp
  show "sent (snd (changeStatus e w i st)) =
           sent w @ [ValidateProducts (map productId (OrderItem ord))]"
    using f w1 by (auto simp: changeStatus_def split: sum.splits)
next
  fix products
  assume h: "validate_products e (map productId (OrderItem ord)) = Inr products \<and>
      all_resolve products (OrderItem ord)"
  show "fst (changeStatus e w i st) =
              (if status ord = st
               then Inr (WithProducts (with_items ord (named products (OrderItem ord))))
               else Inr (Updated ((order.truncate ord)\<lparr>status := st\<rparr>)))"
  proof (cases "status ord = st")
    case True
    then show ?thesis
      using h findOne_existing [OF assms, of e products]
      by (simp add: changeStatus_same [OF assms True])
  next
    case False
    then show ?thesis
      using h changeStatus_other [OF assms False, of e products] by simp
  qed
qed

theorem changeStatus_validates_and_shapes_witness:
  "order_findFirst (db w_one) ''o'' = Some ord_one \<and>
   validate_products env_ok (map productId (OrderItem ord_one)) = Inr [pA, pB] \<and>
   all_resolve [pA, pB] (OrderItem ord_one) \<and>
   sent (snd (changeStatus env_ok w_one ''o'' PENDING)) =
     [ValidateProducts [''A'', ''B''], ValidateProducts [''A'', ''B'']] \<and>
   sent (snd (changeStatus env_ok w_one ''o'' PAID)) =
     [ValidateProducts [''A'', ''B''], ValidateProducts [''A'', ''B'']] \<and>
   (\<exists>res. fst (changeStatus env_ok w_one ''o'' PENDING) = Inr (WithProducts res) \<and>
      map name (OrderItem res) = [''apple'', ''bread'']) \<and>
   (\<exists>row. fst (changeStatus env_ok w_one ''o'' PAID) = Inr (Updated row))"
proof -
  have s: "sent w_one = [ValidateProducts [''A'', ''B'']]" by (simp add: w_one_eq)
  have p: "map productId (OrderItem ord_one) = [''A'', ''B'']" by (simp add: ord_one_def)
  have n: "map name (named [pA, pB] (OrderItem ord_one)) = [''apple'', ''bread'']"
    by (simp add: name_named resolved_name_def ord_one_def pA_def pB_def)
  have st: "status ord_one = PENDING" by (simp add: ord_one_def)
  from changeStatus_validates_and_shapes [OF findFirst_w_one, of env_ok PENDING]
       changeStatus_validates_and_shapes [OF findFirst_w_one, of env_ok PAID]
  show ?thesis
    using findFirst_w_one validate_ord_one resolve_ord_one s p n st
    by (auto simp: OrderItem_with_items)
qed

section \<open>Listing\<close>

lemma count_w_25: "order_count (db w_25) None = 25"
  by (simp add: w_25_def order_count_def matches_def)

lemma findAll_fields:
  "data (fst (findAll w pg limit st)) =
     take limit (drop ((pg - 1) * limit) (filter (matches st) (order_table (db w))))"
  "page (meta (fst (findAll w pg limit st))) = pg"
  "totalPages (meta (fst (findAll w pg limit st))) = order_count (db w) st"
  "lastPage (meta (fst (findAll w pg limit st))) =
     nat \<lceil>(of_nat (order_count (db w) st) :: rat) / of_nat limit\<rceil>"
  by (simp_all add: findAll_def Let_def order_findMany_def)

lemma ceil_upper:
  assumes "1 \<le> limit"
  shows "c \<le> nat \<lceil>(of_nat c :: rat) / of_nat limit\<rceil> * limit"
proof -
  let ?q = "(of_nat c :: rat) / of_nat limit"
  have pos: "(0::rat) < of_nat limit" using assms by simp
  have "0 \<le> ?q" by simp
  then have "- 1 < ?q" by linarith
  then have nn: "0 \<le> \<lceil>?q\<rceil>" by (simp only: zero_le_ceiling)
  have "?q \<le> of_int \<lceil>?q\<rceil>" by (rule le_of_int_ceiling)
  then have "of_nat c \<le> of_int \<lceil>?q\<rceil> * (of_nat limit :: rat)"
    unfolding pos_divide_le_eq [OF pos] .
  also have "of_int \<lceil>?q\<rceil> = (of_nat (nat \<lceil>?q\<rceil>) :: rat)"
    using nn by simp
  finally have "(of_nat c :: rat) \<le> of_nat (nat \<lceil>?q\<rceil> * limit)" by simp
  then show ?thesis by (simp only: of_nat_le_iff)
qed

lemma ceil_least:
  assumes "1 \<le> limit" and "c \<le> n * limit"
  shows "nat \<lceil>(of_nat c :: rat) / of_nat limit\<rceil> \<le> n"
proof -
  have pos: "(0::rat) < of_nat limit" using assms by simp
  have "(of_nat c :: rat) \<le> of_nat (n * limit)" using assms(2) by (simp only: of_nat_le_iff)
  then have "(of_nat c :: rat) / of_nat limit \<le> of_nat n"
    using pos by (simp add: pos_divide_le_eq)
  then have "\<lceil>(of_nat c :: rat) / of_nat limit\<rceil> \<le> int n"
    by (simp add: ceiling_le_iff)
  then show ?thesis by simp
qed

lemma ceil_5_2: "\<lceil>(5::rat) / 2\<rceil> = 3"
  by (rule ceiling_unique) simp_all

lemma beyond_lastPage_empty:
  assumes "1 \<le> limit" and "lastPage (meta (fst (findAll w pg limit st))) < pg"
  shows "data (fst (findAll w pg limit st)) = []"
proof -
  let ?c = "order_count (db w) st"
  let ?l = "nat \<lceil>(of_nat ?c :: rat) / of_nat limit\<rceil>"
  have "?l \<le> pg - 1" using assms(2) by (simp add: findAll_fields)
  then have "?l * limit \<le> (pg - 1) * limit" by simp
  with ceil_upper [OF assms(1), of ?c] have "?c \<le> (pg - 1) * limit" by linarith
  then show ?thesis by (simp add: findAll_fields order_count_def)
qed

text \<open>
  What \<open>findAll\<close> returns. For a store with 25 rows matching the filter, page 1 with
  limit 10 has 10 rows, \<open>totalPages\<close> is the number of matching rows and \<open>lastPage\<close>
  is 3. For every store, every limit of at least 1 and every page beyond \<open>lastPage\<close>,
  there are no rows, and meta reports the page, the number of matching rows as
  \<open>totalPages\<close>, and as \<open>lastPage\<close> the least number of pages of that limit that hold
  all matching rows.
\<close>

lemma findAll_pagination:
  "(order_count (db w) st = 25 \<longrightarrow>
      length (data (fst (findAll w 1 10 st))) = 10 \<and>
      totalPages (meta (fst (findAll w 1 10 st))) = 25 \<and>
      lastPage (meta (fst (findAll w 1 10 st))) = 3) \<and>
   (\<forall>pg limit. 1 \<le> limit \<and> lastPage (meta (fst (findAll w pg limit st))) < pg \<longrightarrow>
      data (fst (findAll w pg limit st)) = [] \<and>
      page (meta (fst (findAll w pg limit st))) = pg \<and>
      totalPages (meta (fst (findAll w pg limit st))) = order_count (db w) st \<and>
      order_count (db w) st \<le> lastPage (meta (fst (findAll w pg limit st))) * limit \<and>
      (\<forall>n. order_count (db w) st \<le> n * limit \<longrightarrow>
           lastPage (meta (fst (findAll w pg limit st))) \<le> n))"
proof (intro conjI allI impI)
  assume c: "order_count (db w) st = 25"
  then have "length (filter (matches st) (order_table (db w))) = 25"
    by (simp add: order_count_def)
  then show "length (data (fst (findAll w 1 10 st))) = 10"
    by (simp add: findAll_fields)
  show "totalPages (meta (fst (findAll w 1 10 st))) = 25"
    using c by (simp add: findAll_fields)
  show "lastPage (meta (fst (findAll w 1 10 st))) = 3"
    using c by (simp add: findAll_fields ceil_5_2)
next
  fix pg limit
  assume h: "1 \<le> limit \<and> lastPage (meta (fst (findAll w pg limit st))) < pg"
  then show "data (fst (findAll w pg limit st)) = []"
    using beyond_lastPage_empty by blast
  show "page (meta (fst (findAll w pg limit st))) = pg"
    by (simp add: findAll_fields)
  show "totalPages (meta (fst (findAll w pg limit st))) = order_count (db w) st"
    by (simp add: findAll_fields)
  show "order_count (db w) st \<le> lastPage (meta (fst (findAll w pg limit st))) * limit"
    using h ceil_upper by (simp add: findAll_fields)
  fix n assume "order_count (db w) st \<le> n * limit"
  then show "lastPage (meta (fst (findAll w pg limit st))) \<le> n"
    using h ceil_least by (simp add: findAll_fields)
qed

text \<open>
  C4. On the store of 25 pending orders, \<open>findAll\<close> with page 1 and limit 10 returns 10
  rows and reports \<open>lastPage = 3\<close>, and page 4 returns no rows; but \<open>totalPages\<close> is
  25, the number of rows, not the 3 pages.
\<close>

theorem findAll_totalPages_is_row_count:
  "order_count (db w_25) None = 25 \<and>
   length (data (fst (findAll w_25 1 10 None))) = 10 \<and>
   lastPage (meta (fst (findAll w_25 1 10 None))) = 3 \<and>
   totalPages (meta (fst (findAll w_25 1 10 None))) = 25 \<and>
   totalPages (meta (fst (findAll w_25 1 10 None))) \<noteq> 3 \<and>
   data (fst (findAll w_25 4 10 None)) = [] \<and>
   totalPages (meta (fst (findAll w_25 4 10 None))) = 25"
proof -
  have "length (filter (matches None) (order_table (db w_25))) = 25"
    using count_w_25 by (simp add: order_count_def)
  then show ?thesis
    by (simp add: findAll_fields count_w_25 ceil_5_2)
qed

section \<open>Paid finalization\<close>












end
